theory Spec2Isabelle
  imports Complex_Main "HOL-Library.AList" "HOL-Library.Char_ord" "HOL-Library.List_Lexorder"
begin

section \<open>Strings\<close>

text \<open>
  Python \<open>str\<close> values are modelled as HOL strings (lists of 8-bit characters); the
  character classes below are the ASCII part of Python's: texts are read as ASCII.
\<close>

definition upper_letters :: string where
  "upper_letters = ''ABCDEFGHIJKLMNOPQRSTUVWXYZ''"

definition lower_letters :: string where
  "lower_letters = ''abcdefghijklmnopqrstuvwxyz''"

definition is_upper :: "char \<Rightarrow> bool" where
  "is_upper c = (c \<in> set upper_letters)"

definition is_lower :: "char \<Rightarrow> bool" where
  "is_lower c = (c \<in> set lower_letters)"

definition lower_char :: "char \<Rightarrow> char" where
  "lower_char c = (case map_of (zip upper_letters lower_letters) c of Some d \<Rightarrow> d | None \<Rightarrow> c)"

definition upper_char :: "char \<Rightarrow> char" where
  "upper_char c = (case map_of (zip lower_letters upper_letters) c of Some d \<Rightarrow> d | None \<Rightarrow> c)"

text \<open>\<open>s.lower()\<close>\<close>

definition lower :: "string \<Rightarrow> string" where
  "lower s = map lower_char s"

text \<open>\<open>sub in s\<close> for strings: \<open>sub\<close> occurs in \<open>s\<close> as a contiguous block.\<close>

fun starts_with :: "string \<Rightarrow> string \<Rightarrow> bool" where
  "starts_with s [] = True"
| "starts_with [] (p # ps) = False"
| "starts_with (c # cs) (p # ps) = (c = p \<and> starts_with cs ps)"

fun str_in :: "string \<Rightarrow> string \<Rightarrow> bool" where
  "str_in sub [] = (sub = [])"
| "str_in sub (c # cs) = (starts_with (c # cs) sub \<or> str_in sub cs)"

section \<open>KnowledgeBaseLoader\<close>

text \<open>A loaded document and a chunk cut from it; \<open>priority\<close> is a float with an exact
  binary value (1.0, 1.5, 2.0, 3.0, 4.0), modelled as a rational.\<close>

record document =
  doc_path :: string
  doc_content :: string
  doc_filename :: string
  doc_priority :: rat

record chunk =
  path :: string
  filename :: string
  content :: string
  start_line :: int
  end_line :: int
  priority :: rat

text \<open>\<open>KnowledgeBaseLoader._get_folder_priority\<close>\<close>

definition get_folder_priority :: "string \<Rightarrow> rat" where
  "get_folder_priority p =
     (let path_lower = lower p in
      if str_in ''quantitative'' path_lower then
        (if str_in ''donations_summary'' path_lower then 2 else 4)
      else if str_in ''qualitative'' path_lower then 3
      else if str_in ''grant_example'' path_lower then 2
      else if str_in ''contact'' path_lower then 1
      else 3 / 2)"

section \<open>Chunker\<close>

definition newline :: char where
  "newline = CHR 0x0A"

text \<open>\<open>s.split(sep)\<close> for a one-character separator: never an empty list.\<close>

fun split_on :: "char \<Rightarrow> string \<Rightarrow> string list" where
  "split_on sep [] = [[]]"
| "split_on sep (c # cs) =
     (if c = sep then [] # split_on sep cs
      else (case split_on sep cs of
              [] \<Rightarrow> [[c]]
            | l # ls \<Rightarrow> (c # l) # ls))"

text \<open>\<open>sep.join(xs)\<close>\<close>

fun join_with :: "string \<Rightarrow> string list \<Rightarrow> string" where
  "join_with sep [] = []"
| "join_with sep [x] = x"
| "join_with sep (x # y # ys) = x @ sep @ join_with sep (y # ys)"

text \<open>The characters \<open>str.strip()\<close> removes (ASCII): tab, line feed, vertical tab, form
  feed, carriage return, the separators 0x1C to 0x1F, and the space.\<close>

definition is_space :: "char \<Rightarrow> bool" where
  "is_space c = (c \<in> set [CHR 0x09, CHR 0x0A, CHR 0x0B, CHR 0x0C, CHR 0x0D,
                             CHR 0x1C, CHR 0x1D, CHR 0x1E, CHR 0x1F, CHR 0x20])"

definition strip :: "string \<Rightarrow> string" where
  "strip s = rev (dropWhile is_space (rev (dropWhile is_space s)))"

text \<open>\<open>s[-n:]\<close> for \<open>n > 0\<close>: the last \<open>n\<close> characters, all of \<open>s\<close> when it is shorter.\<close>

definition last_chars :: "int \<Rightarrow> string \<Rightarrow> string" where
  "last_chars n s = drop (length s - nat n) s"

definition mk_chunk :: "document \<Rightarrow> string \<Rightarrow> int \<Rightarrow> int \<Rightarrow> chunk" where
  "mk_chunk doc cur cstart cend =
     \<lparr>path = doc_path doc, filename = doc_filename doc, content = cur,
      start_line = cstart, end_line = cend, priority = doc_priority doc\<rparr>"

text \<open>The inner loop of \<open>get_chunks\<close> over \<open>enumerate(lines)\<close>: the state is the list of
  chunks emitted so far, \<open>current_chunk\<close> and \<open>chunk_start\<close>.\<close>

fun chunk_lines ::
  "document \<Rightarrow> int \<Rightarrow> int \<Rightarrow> (nat \<times> string) list \<Rightarrow> chunk list \<Rightarrow> string \<Rightarrow> int
     \<Rightarrow> chunk list \<times> string \<times> int" where
  "chunk_lines doc chunk_size overlap [] chunks current_chunk chunk_start =
     (chunks, current_chunk, chunk_start)"
| "chunk_lines doc chunk_size overlap ((i, line) # rest) chunks current_chunk chunk_start =
     (if int (length current_chunk) + int (length line) > chunk_size \<and> current_chunk \<noteq> [] then
        (let overlap_lines =
               (if overlap > 0 then split_on newline (last_chars overlap current_chunk) else [])
         in chunk_lines doc chunk_size overlap rest
              (chunks @ [mk_chunk doc current_chunk chunk_start (int i)])
              (join_with [newline] overlap_lines @ [newline] @ line)
              (max 0 (int i - int (length overlap_lines))))
      else
        chunk_lines doc chunk_size overlap rest chunks
          (if current_chunk \<noteq> [] then current_chunk @ [newline] @ line else line)
          chunk_start)"

definition doc_chunks :: "document \<Rightarrow> int \<Rightarrow> int \<Rightarrow> chunk list" where
  "doc_chunks doc chunk_size overlap =
     (let lines = split_on newline (doc_content doc) in
      case chunk_lines doc chunk_size overlap (enumerate 0 lines) [] [] 0 of
        (chunks, current_chunk, chunk_start) \<Rightarrow>
          if strip current_chunk \<noteq> []
          then chunks @ [mk_chunk doc current_chunk chunk_start (int (length lines))]
          else chunks)"

text \<open>\<open>KnowledgeBaseLoader.get_chunks\<close> over the loaded documents.\<close>

definition get_chunks :: "document list \<Rightarrow> int \<Rightarrow> int \<Rightarrow> chunk list" where
  "get_chunks documents chunk_size overlap =
     concat (map (\<lambda>doc. doc_chunks doc chunk_size overlap) documents)"

text \<open>The shapes a chunk's content can take: within the budget plus one separator, a single
  line, or a carried-over tail of at most \<open>overlap\<close> characters, a newline and one line.\<close>

definition chunk_shape :: "int \<Rightarrow> int \<Rightarrow> string set \<Rightarrow> string \<Rightarrow> bool" where
  "chunk_shape chunk_size overlap L s =
     (int (length s) \<le> chunk_size + 1
      \<or> (\<exists>l\<in>L. s = l)
      \<or> (\<exists>l\<in>L. \<exists>t. int (length t) \<le> max overlap 0 \<and> s = t @ [newline] @ l))"


text \<open>Two small documents: lines \<open>a\<close>, \<open>bc\<close>; and lines of nine \<open>a\<close>, nine \<open>b\<close>, and \<open>c\<close>.\<close>

definition example_doc_short :: document where
  "example_doc_short = \<lparr>doc_path = ''contact/a.md'', doc_content = ''a'' @ [newline] @ ''bc'',
          doc_filename = ''a.md'', doc_priority = 1\<rparr>"

definition example_doc_overlap :: document where
  "example_doc_overlap = \<lparr>doc_path = ''contact/b.md'',
          doc_content = ''aaaaaaaaa'' @ [newline] @ ''bbbbbbbbb'' @ [newline] @ ''c'',
          doc_filename = ''b.md'', doc_priority = 1\<rparr>"

section \<open>Python values and exceptions\<close>

text \<open>Values exchanged with the backends and produced by \<open>json.loads\<close>: \<open>None\<close>, booleans,
  numbers (as rationals), strings, lists and dicts (association lists in insertion order).\<close>

datatype pyval =
    PNone
  | PBool bool
  | PNum rat
  | PStr string
  | PList "pyval list"
  | PDict "(string \<times> pyval) list"

text \<open>A raised exception, with the text \<open>str(e)\<close> gives.\<close>

datatype py_error =
    ValueError string
  | TypeError string
  | IndexError string
  | KeyError string
  | JSONDecodeError string
  | BackendError string

section \<open>VectorSearcher: index construction\<close>

text \<open>An entry of the local list \<open>embeddings\<close>: \<open>np.array(v)\<close> or \<open>np.zeros(n)\<close>.\<close>

datatype nparray = NpArray pyval | NpZeros nat

text \<open>
  The embedding backend and numpy, as far as \<open>_compute_embeddings\<close> sees them:
  \<open>embed_many\<close> is \<open>genai.embed_content\<close> called with a list of texts and \<open>embed_one\<close> the same
  call with one text (\<open>None\<close>: the call raises); \<open>array_ok v\<close> says that \<open>np.array(v)\<close> returns,
  \<open>stack_ok es\<close> that the final \<open>np.array(embeddings)\<close> returns.
\<close>

record embed_backend =
  embed_many :: "string list \<Rightarrow> pyval option"
  embed_one :: "string \<Rightarrow> pyval option"
  array_ok :: "pyval \<Rightarrow> bool"
  stack_ok :: "nparray list \<Rightarrow> bool"

text \<open>\<open>for embedding in vs: embeddings.append(np.array(embedding))\<close>; \<open>False\<close> when a conversion
  raises, with the entries appended before it kept.\<close>

fun append_arrays :: "embed_backend \<Rightarrow> pyval list \<Rightarrow> nparray list \<Rightarrow> bool \<times> nparray list" where
  "append_arrays be [] embeddings = (True, embeddings)"
| "append_arrays be (v # vs) embeddings =
     (if array_ok be v then append_arrays be vs (embeddings @ [NpArray v])
      else (False, embeddings))"

text \<open>The fallback loop: one call per chunk of the batch, a zero vector of 768 entries when
  the call or the conversion raises.\<close>

fun embed_individually :: "embed_backend \<Rightarrow> chunk list \<Rightarrow> nparray list \<Rightarrow> nparray list" where
  "embed_individually be [] embeddings = embeddings"
| "embed_individually be (c # cs) embeddings =
     embed_individually be cs
       (case embed_one be (content c) of
          None \<Rightarrow> embeddings @ [NpZeros 768]
        | Some result \<Rightarrow>
            (let embedding =
                   (case result of
                      PDict d \<Rightarrow> (case map_of d ''embedding'' of Some v \<Rightarrow> v | None \<Rightarrow> PList [])
                    | _ \<Rightarrow> result)
             in if array_ok be embedding then embeddings @ [NpArray embedding]
                else embeddings @ [NpZeros 768]))"

text \<open>One pass of the batch loop. Every exception of the batch attempt (the call raising, an
  unexpected response, a conversion raising) is caught by \<open>except Exception as batch_error\<close>,
  whose handler runs the fallback loop on the list as it stands. The outer handler of the
  source is never reached: the inner one catches every exception and its body raises none.\<close>

definition embed_batch :: "embed_backend \<Rightarrow> chunk list \<Rightarrow> nparray list \<Rightarrow> nparray list" where
  "embed_batch be batch_chunks embeddings =
     (let fallback = embed_individually be batch_chunks;
          each = (\<lambda>vs. case append_arrays be vs embeddings of
                          (True, embeddings') \<Rightarrow> embeddings'
                        | (False, embeddings') \<Rightarrow> fallback embeddings')
      in case embed_many be (map content batch_chunks) of
           None \<Rightarrow> fallback embeddings
         | Some (PDict d) \<Rightarrow>
             (case map_of d ''embedding'' of
                None \<Rightarrow> fallback embeddings
              | Some (PList (e0 # es)) \<Rightarrow>
                  (case e0 of
                     PList _ \<Rightarrow> each (e0 # es)
                   | _ \<Rightarrow> if array_ok be (PList (e0 # es))
                          then embeddings @ [NpArray (PList (e0 # es))]
                          else fallback embeddings)
              | Some _ \<Rightarrow> fallback embeddings)
         | Some (PList vs) \<Rightarrow> each vs
         | Some _ \<Rightarrow> fallback embeddings)"

text \<open>\<open>range(0, total_chunks, batch_size)\<close> with the slices \<open>chunks[batch_start:batch_end]\<close>.\<close>

fun batches :: "nat \<Rightarrow> 'a list \<Rightarrow> 'a list list" where
  "batches n [] = []"
| "batches n (x # xs) = (x # take (n - 1) xs) # batches n (drop (n - 1) xs)"

text \<open>\<open>VectorSearcher._compute_embeddings\<close>: \<open>cached\<close> is what \<open>_load_embeddings_from_cache\<close>
  finds (\<open>None\<close>: no usable cache file). The result is \<open>self.embeddings\<close>, one entry per row.\<close>

definition compute_embeddings ::
  "embed_backend \<Rightarrow> nparray list option \<Rightarrow> chunk list \<Rightarrow> py_error + nparray list" where
  "compute_embeddings be cached chunks =
     (case cached of
        Some embeddings \<Rightarrow> Inr embeddings
      | None \<Rightarrow>
          (let embeddings = fold (embed_batch be) (batches 100 chunks) []
           in if stack_ok be embeddings then Inr embeddings
              else Inl (ValueError ''setting an array element with a sequence'')))"

text \<open>A backend whose batch call answers with one flat vector under \<open>embedding\<close> (the shape of
  a single-text answer), and two chunks to embed.\<close>

definition flat_backend :: embed_backend where
  "flat_backend =
     \<lparr>embed_many = (\<lambda>texts. Some (PDict [(''embedding'', PList [PNum (1/10), PNum (2/10), PNum (3/10)])])),
      embed_one = (\<lambda>text. Some (PDict [(''embedding'', PList [PNum (1/10), PNum (2/10), PNum (3/10)])])),
      array_ok = (\<lambda>v. True),
      stack_ok = (\<lambda>es. True)\<rparr>"

definition two_chunks :: "chunk list" where
  "two_chunks =
     [\<lparr>path = ''quantitative/a.md'', filename = ''a.md'', content = ''first'',
       start_line = 0, end_line = 1, priority = 4\<rparr>,
      \<lparr>path = ''contact/b.md'', filename = ''b.md'', content = ''second'',
       start_line = 0, end_line = 1, priority = 1\<rparr>]"

section \<open>VectorSearcher: search\<close>

text \<open>Embedding vectors are one-dimensional arrays of floats, read here as lists of reals;
  scores are computed in exact arithmetic.\<close>






text \<open>\<open>s.split()\<close>: the maximal runs of non-whitespace characters.\<close>

fun split_ws_from :: "string \<Rightarrow> string \<Rightarrow> string list" where
  "split_ws_from [] w = (if w = [] then [] else [w])"
| "split_ws_from (c # cs) w =
     (if is_space c then (if w = [] then split_ws_from cs [] else w # split_ws_from cs [])
      else split_ws_from cs (w @ [c]))"

definition split_ws :: "string \<Rightarrow> string list" where
  "split_ws s = split_ws_from s []"







section \<open>QAEngine\<close>

text \<open>\<open>str(e)\<close>\<close>

fun str_of_error :: "py_error \<Rightarrow> string" where
  "str_of_error (ValueError m) = m"
| "str_of_error (TypeError m) = m"
| "str_of_error (IndexError m) = m"
| "str_of_error (KeyError k) = [CHR 0x27] @ k @ [CHR 0x27]"
| "str_of_error (JSONDecodeError m) = m"
| "str_of_error (BackendError m) = m"

subsection \<open>Operations on Python values\<close>

text \<open>\<open>key in x\<close> for a string \<open>key\<close>: a key test on a dict, a membership test on a list, a
  substring test on a string, a \<open>TypeError\<close> on every other value.\<close>

fun py_contains :: "string \<Rightarrow> pyval \<Rightarrow> py_error + bool" where
  "py_contains key (PDict d) = Inr (key \<in> fst ` set d)"
| "py_contains key (PList xs) = Inr (PStr key \<in> set xs)"
| "py_contains key (PStr s) = Inr (str_in key s)"
| "py_contains key PNone = Inl (TypeError ''argument of type 'NoneType' is not iterable'')"
| "py_contains key (PBool b) = Inl (TypeError ''argument of type 'bool' is not iterable'')"
| "py_contains key (PNum n) = Inl (TypeError ''argument of type 'float' is not iterable'')"

text \<open>\<open>x[key] = v\<close> for a string \<open>key\<close>: defined on dicts only.\<close>

fun py_setitem :: "pyval \<Rightarrow> string \<Rightarrow> pyval \<Rightarrow> py_error + pyval" where
  "py_setitem (PDict d) key v = Inr (PDict (AList.update key v d))"
| "py_setitem (PList xs) key v = Inl (TypeError ''list indices must be integers or slices, not str'')"
| "py_setitem x key v = Inl (TypeError ''object does not support item assignment'')"

text \<open>\<open>x[key]\<close> for a string \<open>key\<close>.\<close>

fun py_getitem :: "pyval \<Rightarrow> string \<Rightarrow> py_error + pyval" where
  "py_getitem (PDict d) key = (case map_of d key of Some v \<Rightarrow> Inr v | None \<Rightarrow> Inl (KeyError key))"
| "py_getitem (PList xs) key = Inl (TypeError ''list indices must be integers or slices, not str'')"
| "py_getitem (PStr s) key = Inl (TypeError ''string indices must be integers'')"
| "py_getitem x key = Inl (TypeError ''object is not subscriptable'')"

text \<open>\<open>{q: v for q in keys}\<close>: a repeated key keeps its first position.\<close>

definition dict_for_keys :: "'k list \<Rightarrow> 'v \<Rightarrow> ('k \<times> 'v) list" where
  "dict_for_keys keys v = fold (\<lambda>q d. AList.update q v d) keys []"

text \<open>\<open>if k not in x: x[k] = v\<close>\<close>

definition set_default :: "string \<Rightarrow> pyval \<Rightarrow> pyval \<Rightarrow> py_error + pyval" where
  "set_default key v x =
     (case py_contains key x of
        Inl e \<Rightarrow> Inl e
      | Inr True \<Rightarrow> Inr x
      | Inr False \<Rightarrow> py_setitem x key v)"

text \<open>\<open>s.endswith(p)\<close>, \<open>s.find(sub, start)\<close> and \<open>s[a:b]\<close> for \<open>0 \<le> a \<le> b\<close>.\<close>

definition ends_with :: "string \<Rightarrow> string \<Rightarrow> bool" where
  "ends_with s p = starts_with (rev s) (rev p)"

fun find_scan :: "string \<Rightarrow> string \<Rightarrow> nat \<Rightarrow> int" where
  "find_scan sub [] pos = (if sub = [] then int pos else - 1)"
| "find_scan sub (c # cs) pos =
     (if starts_with (c # cs) sub then int pos else find_scan sub cs (pos + 1))"

definition py_find :: "string \<Rightarrow> string \<Rightarrow> nat \<Rightarrow> int" where
  "py_find s sub start = (if length s < start then - 1 else find_scan sub (drop start s) start)"

definition slice :: "nat \<Rightarrow> nat \<Rightarrow> 'a list \<Rightarrow> 'a list" where
  "slice a b xs = take (b - a) (drop a xs)"

subsection \<open>The prompt\<close>

text \<open>
  \<open>build_prompt\<close> renders one f-string: long literal blocks of instructions with the
  variable parts in between. The literal blocks are the fields of \<open>prompt_texts\<close>, in the
  order they occur; what is proved holds whatever their text is. \<open>t_quick_ref\<close> is the
  "quick reference" summary that \<open>build_prompt\<close> extracts from the cleaned sponsor context
  with regular expressions (a sponsor name, keywords, amounts): a function of the cleaned
  context, empty or ending in a blank line.
\<close>

record prompt_texts =
  t_opening :: string
  t_opening_sponsor :: string
  t_guidance :: string
  t_kb_heading :: string
  t_kb_heading_sponsor :: string
  t_kb_rules :: string
  t_questions_heading :: string
  t_examples :: string
  t_quality :: string
  t_use_context_given :: string
  t_use_context_absent :: string
  t_analyze :: string
  t_connect_given :: string
  t_persuade :: string
  t_tailor_given :: string
  t_closing :: string
  t_output_format_tailored :: string
  t_output_format_plain :: string
  t_sponsor_heading :: string
  t_sponsor_full_heading :: string
  t_sponsor_instructions :: string
  t_quick_ref :: "string \<Rightarrow> string"

text \<open>\<open>QAEngine.count_tokens\<close>\<close>

definition count_tokens :: "string \<Rightarrow> int" where
  "count_tokens text = int (length text) div 2"

text \<open>The source label and the rendering of one chunk in \<open>context_sections\<close>.\<close>

definition source_type :: "chunk \<Rightarrow> string" where
  "source_type c =
     (if 4 \<le> priority c then ''QUANTITATIVE DATA''
      else if 3 \<le> priority c then ''QUALITATIVE INFO''
      else if 2 \<le> priority c then ''GRANT EXAMPLE''
      else ''CONTACT INFO'')"

definition context_section :: "chunk \<Rightarrow> string" where
  "context_section c =
     ''['' @ source_type c @ ''] Source: '' @ path c @ [newline] @ content c"

text \<open>The block for the sponsor context: empty unless the context has a non-blank
  character; the context goes in stripped of surrounding whitespace.\<close>

definition additional_context_section :: "prompt_texts \<Rightarrow> string \<Rightarrow> string" where
  "additional_context_section T additional_context =
     (if strip additional_context \<noteq> [] then
        (let cleaned_context = strip additional_context in
         t_sponsor_heading T @ t_quick_ref T cleaned_context @ t_sponsor_full_heading T
           @ cleaned_context @ t_sponsor_instructions T)
      else [])"

text \<open>\<open>QAEngine.build_prompt\<close>\<close>

definition build_prompt ::
  "prompt_texts \<Rightarrow> string list \<Rightarrow> chunk list \<Rightarrow> string \<Rightarrow> bool \<Rightarrow> string" where
  "build_prompt T questions context_chunks additional_context include_tailoring_explanation =
     (let output_format_section =
            (if include_tailoring_explanation then t_output_format_tailored T
             else t_output_format_plain T);
          quantitative_chunks = filter (\<lambda>c. 4 \<le> priority c) context_chunks;
          qualitative_chunks = filter (\<lambda>c. 3 \<le> priority c \<and> priority c < 4) context_chunks;
          grant_chunks = filter (\<lambda>c. 2 \<le> priority c \<and> priority c < 3) context_chunks;
          contact_chunks = filter (\<lambda>c. priority c < 2) context_chunks;
          prioritized_chunks =
            quantitative_chunks @ qualitative_chunks @ grant_chunks @ contact_chunks;
          context_text =
            join_with ([newline, newline] @ ''---'' @ [newline, newline])
              (map context_section prioritized_chunks);
          questions_text = join_with [newline] (map (\<lambda>q. ''- '' @ q) questions);
          has_context = (strip additional_context \<noteq> [])
      in t_opening T @ (if has_context then t_opening_sponsor T else [])
         @ t_guidance T
         @ additional_context_section T additional_context
         @ t_kb_heading T @ (if has_context then t_kb_heading_sponsor T else [])
         @ t_kb_rules T
         @ context_text
         @ t_questions_heading T
         @ questions_text
         @ t_examples T
         @ output_format_section
         @ t_quality T
         @ (if has_context then t_use_context_given T else t_use_context_absent T)
         @ t_analyze T
         @ (if has_context then t_connect_given T else [])
         @ t_persuade T
         @ (if has_context then t_tailor_given T else [])
         @ t_closing T)"

subsection \<open>Shrinking the context\<close>

text \<open>The engine object: its model name and \<open>max_context_tokens\<close> (1000000 as constructed).\<close>

record qa_engine =
  model :: string
  max_context_tokens :: int

text \<open>The \<open>while\<close> loop of \<open>answer_batch\<close>; the last argument counts the attempts left
  (\<open>max_attempts - attempt\<close>, 50 at the start). \<open>too_long cs\<close> is the loop's test on the prompt
  built from \<open>cs\<close>.\<close>

fun reduce_chunks :: "(chunk list \<Rightarrow> bool) \<Rightarrow> chunk list \<Rightarrow> nat \<Rightarrow> chunk list" where
  "reduce_chunks too_long reduced_chunks 0 = reduced_chunks"
| "reduce_chunks too_long reduced_chunks (Suc attempts_left) =
     (if too_long reduced_chunks then
        (if length reduced_chunks \<le> 10 then reduced_chunks
         else reduce_chunks too_long (butlast reduced_chunks) attempts_left)
      else reduced_chunks)"

text \<open>The chunks the final prompt is built from.\<close>

definition final_chunks ::
  "qa_engine \<Rightarrow> prompt_texts \<Rightarrow> string list \<Rightarrow> chunk list \<Rightarrow> string \<Rightarrow> chunk list" where
  "final_chunks eng T questions context_chunks additional_context =
     (let include_tailoring_explanation = (strip additional_context \<noteq> []);
          too_long = (\<lambda>cs. count_tokens (build_prompt T questions cs additional_context
                                include_tailoring_explanation) > max_context_tokens eng)
      in if too_long context_chunks then
           reduce_chunks too_long
             (filter (\<lambda>c. 4 \<le> priority c) context_chunks
                @ filter (\<lambda>c. priority c < 4) context_chunks) 50
         else context_chunks)"

text \<open>The prompt sent to the generation backend.\<close>

definition final_prompt ::
  "qa_engine \<Rightarrow> prompt_texts \<Rightarrow> string list \<Rightarrow> chunk list \<Rightarrow> string \<Rightarrow> string" where
  "final_prompt eng T questions context_chunks additional_context =
     build_prompt T questions
       (final_chunks eng T questions context_chunks additional_context)
       additional_context (strip additional_context \<noteq> [])"

text \<open>Short stand-ins for the literal blocks, an engine with a budget of 50 tokens, and
  twelve chunks: ten contact chunks, then a quantitative and a qualitative one.\<close>

definition example_texts :: prompt_texts where
  "example_texts =
     \<lparr>t_opening = ''[opening]'',
      t_opening_sponsor = ''[sponsor]'',
      t_guidance = ''[guidance]'',
      t_kb_heading = ''[kb]'',
      t_kb_heading_sponsor = ''[tailored]'',
      t_kb_rules = ''[rules]'',
      t_questions_heading = ''[questions]'',
      t_examples = ''[examples]'',
      t_quality = ''[quality]'',
      t_use_context_given = ''[use it]'',
      t_use_context_absent = ''[if any]'',
      t_analyze = ''[analyze]'',
      t_connect_given = ''[connect]'',
      t_persuade = ''[persuade]'',
      t_tailor_given = ''[tailor]'',
      t_closing = ''[closing]'',
      t_output_format_tailored = ''[four keys]'',
      t_output_format_plain = ''[answers]'',
      t_sponsor_heading = ''[critical]'',
      t_sponsor_full_heading = ''[full context]'',
      t_sponsor_instructions = ''[instructions]'',
      t_quick_ref = (\<lambda>cleaned_context. [])\<rparr>"

definition example_engine :: qa_engine where
  "example_engine = \<lparr>model = ''gemini-2.0-flash'', max_context_tokens = 50\<rparr>"





subsection \<open>QAEngine.answer\_batch\<close>

text \<open>The code fence of three backticks.\<close>

definition fence :: string where
  "fence = [CHR 0x60, CHR 0x60, CHR 0x60]"

text \<open>Sequencing of steps that may raise.\<close>

definition and_then :: "py_error + 'a \<Rightarrow> ('a \<Rightarrow> py_error + 'b) \<Rightarrow> py_error + 'b" where
  "and_then r f = (case r of Inl e \<Rightarrow> Inl e | Inr v \<Rightarrow> f v)"

text \<open>The three \<open>if k not in x: x[k] = default\<close> statements, in the order of the source.\<close>

definition fill_defaults :: "pyval \<Rightarrow> pyval \<Rightarrow> pyval \<Rightarrow> pyval \<Rightarrow> py_error + pyval" where
  "fill_defaults x fit_score fit_explanation tailoring_explanation =
     and_then (set_default ''fit_score'' fit_score x) (\<lambda>x1.
     and_then (set_default ''fit_explanation'' fit_explanation x1) (\<lambda>x2.
     set_default ''tailoring_explanation'' tailoring_explanation x2))"

definition tailored_default :: string where
  "tailored_default = ''Responses were tailored based on the sponsor context provided, emphasizing alignment with sponsor priorities and using relevant PHC programs and statistics.''"

text \<open>What \<open>answer_batch\<close> returns once \<open>json.loads(response.text)\<close> has succeeded.\<close>

definition shape_direct :: "bool \<Rightarrow> pyval \<Rightarrow> py_error + pyval" where
  "shape_direct include_tailoring_explanation result_json =
     and_then (py_contains ''answers'' result_json) (\<lambda>has_answers.
       if include_tailoring_explanation then
         (if has_answers then
            fill_defaults result_json (PNum 0)
              (PStr ''No fit analysis available - sponsor context was not sufficient for evaluation.'')
              (PStr tailored_default)
          else
            Inr (PDict
              [(''answers'', result_json),
               (''tailoring_explanation'', PStr tailored_default),
               (''fit_score'', PNum (35 / 10)),
               (''fit_explanation'', PStr ''Unable to provide detailed fit analysis - recommend reviewing sponsor requirements against PHC capabilities.'')]))
       else
         (if has_answers then py_getitem result_json ''answers'' else Inr result_json))"

text \<open>What it returns for a value parsed out of a fenced block.\<close>

definition shape_fenced :: "bool \<Rightarrow> pyval \<Rightarrow> py_error + pyval" where
  "shape_fenced include_tailoring_explanation parsed =
     (if include_tailoring_explanation then
        and_then (py_contains ''answers'' parsed) (\<lambda>has_answers.
          if has_answers then
            fill_defaults parsed (PNum 0) (PStr ''No fit analysis available.'')
              (PStr ''Responses were tailored based on sponsor context.'')
          else
            Inr (PDict
              [(''answers'', parsed),
               (''tailoring_explanation'', PStr ''Responses were tailored based on sponsor context.''),
               (''fit_score'', PNum 0),
               (''fit_explanation'', PStr ''No fit analysis available.'')]))
      else
        and_then (py_contains ''answers'' parsed) (\<lambda>has_answers.
          if has_answers then py_getitem parsed ''answers'' else Inr parsed))"

text \<open>The text between a code fence and the next one, stripped: first for a fence tagged
  \<open>json\<close>, else for a plain fence; \<open>None\<close> when there is no fence or no closing fence after
  a non-empty body.\<close>

definition fenced_body :: "string \<Rightarrow> nat \<Rightarrow> string option" where
  "fenced_body text json_start =
     (let json_end = py_find text fence json_start
      in if int json_start < json_end
         then Some (strip (slice json_start (nat json_end) text))
         else None)"

definition fenced_text :: "string \<Rightarrow> string option" where
  "fenced_text text =
     (if str_in (fence @ ''json'') text then
        fenced_body text (nat (py_find text (fence @ ''json'') 0 + 7))
      else if str_in fence text then
        fenced_body text (nat (py_find text fence 0 + 3))
      else None)"

text \<open>The retry on the stripped text when it starts with \<open>{\<close> and ends with \<open>}\<close>; a failure
  of the retry is swallowed (\<open>except: pass\<close>).\<close>

definition retry_braces :: "(string \<Rightarrow> py_error + pyval) \<Rightarrow> string \<Rightarrow> pyval option" where
  "retry_braces json_loads text =
     (if starts_with text ''{'' \<and> ends_with text ''}'' then
        (case json_loads text of Inr v \<Rightarrow> Some v | Inl e \<Rightarrow> None)
      else None)"

text \<open>The last resort: an error answer for each question.\<close>

definition parse_error_result :: "bool \<Rightarrow> string list \<Rightarrow> pyval" where
  "parse_error_result include_tailoring_explanation questions =
     (if include_tailoring_explanation then
        PDict
          [(''answers'', PDict (dict_for_keys questions (PStr ''Error: Could not parse JSON response''))),
           (''tailoring_explanation'', PStr ''Unable to generate tailoring explanation due to parsing error.''),
           (''fit_score'', PNum 0),
           (''fit_explanation'', PStr ''Unable to generate fit analysis due to parsing error.'')]
      else PDict (dict_for_keys questions (PStr ''Error: Could not parse JSON response'')))"

text \<open>The handler \<open>except json.JSONDecodeError\<close>; \<open>Inl\<close> is an exception that leaves it.\<close>

definition recover ::
  "bool \<Rightarrow> (string \<Rightarrow> py_error + pyval) \<Rightarrow> string list \<Rightarrow> string \<Rightarrow> py_error + pyval" where
  "recover include_tailoring_explanation json_loads questions response_text =
     (let text = strip response_text in
      case retry_braces json_loads text of
        Some v \<Rightarrow> Inr v
      | None \<Rightarrow>
          (case fenced_text text of
             Some body \<Rightarrow>
               and_then (json_loads body) (shape_fenced include_tailoring_explanation)
           | None \<Rightarrow> Inr (parse_error_result include_tailoring_explanation questions)))"

text \<open>The handler \<open>except Exception as e\<close> around the whole attempt.\<close>

definition error_result :: "bool \<Rightarrow> string list \<Rightarrow> py_error \<Rightarrow> pyval" where
  "error_result include_tailoring_explanation questions e =
     (let error_msg = str_of_error e;
          quota = (str_in ''429'' error_msg \<or> str_in ''quota'' (lower error_msg)
                   \<or> str_in ''rate limit'' (lower error_msg))
      in if include_tailoring_explanation then
           (if quota then
              PDict
                [(''answers'', PDict (dict_for_keys questions (PStr ''Error: API quota exceeded''))),
                 (''tailoring_explanation'', PStr ''Unable to generate tailoring explanation due to API error.''),
                 (''fit_score'', PNum 0),
                 (''fit_explanation'', PStr ''Unable to generate fit analysis due to API error.'')]
            else
              PDict
                [(''answers'', PDict (dict_for_keys questions (PStr (''Error: '' @ error_msg)))),
                 (''tailoring_explanation'', PStr ''Unable to generate tailoring explanation due to error.''),
                 (''fit_score'', PNum 0),
                 (''fit_explanation'', PStr ''Unable to generate fit analysis due to error.'')])
         else if quota then PDict (dict_for_keys questions (PStr ''Error: API quota exceeded''))
         else PDict (dict_for_keys questions (PStr (''Error: '' @ error_msg))))"

text \<open>
  \<open>QAEngine.answer_batch\<close>. \<open>generate prompt\<close> is the use of the generation backend up to
  \<open>response.text\<close> (\<open>Inl\<close>: it raises); \<open>json_loads\<close> is \<open>json.loads\<close>, which raises
  \<open>JSONDecodeError\<close> on a text that is not JSON. The result type allows for an exception
  leaving the method.
\<close>

definition attempt ::
  "bool \<Rightarrow> (string \<Rightarrow> py_error + string) \<Rightarrow> (string \<Rightarrow> py_error + pyval) \<Rightarrow> string list
     \<Rightarrow> string \<Rightarrow> py_error + pyval" where
  "attempt include_tailoring_explanation generate json_loads questions prompt =
     and_then (generate prompt) (\<lambda>response_text.
       case json_loads response_text of
         Inr result_json \<Rightarrow> shape_direct include_tailoring_explanation result_json
       | Inl (JSONDecodeError m) \<Rightarrow>
           recover include_tailoring_explanation json_loads questions response_text
       | Inl e \<Rightarrow> Inl e)"

definition qa_answer_batch ::
  "qa_engine \<Rightarrow> prompt_texts \<Rightarrow> (string \<Rightarrow> py_error + string) \<Rightarrow> (string \<Rightarrow> py_error + pyval)
     \<Rightarrow> string list \<Rightarrow> chunk list \<Rightarrow> string \<Rightarrow> py_error + pyval" where
  "qa_answer_batch eng T generate json_loads questions context_chunks additional_context =
     (let include_tailoring_explanation = (strip additional_context \<noteq> []);
          prompt = final_prompt eng T questions context_chunks additional_context
      in case attempt include_tailoring_explanation generate json_loads questions prompt of
           Inr v \<Rightarrow> Inr v
         | Inl e \<Rightarrow> Inr (error_result include_tailoring_explanation questions e))"

text \<open>Backends for the examples: one that fails with a quota error, one that answers with
  a JSON object inside a fenced block; and a \<open>json.loads\<close> that accepts just that object.\<close>

definition quota_generate :: "string \<Rightarrow> py_error + string" where
  "quota_generate prompt = Inl (BackendError ''429 Resource has been exhausted'')"

definition example_json :: string where
  "example_json = ''{'' @ [CHR 0x22] @ ''What is PHC?'' @ [CHR 0x22] @ '': ''
                    @ [CHR 0x22] @ ''A connector.'' @ [CHR 0x22] @ ''}''"


definition example_loads :: "string \<Rightarrow> py_error + pyval" where
  "example_loads s =
     (if s = example_json then Inr (PDict [(''What is PHC?'', PStr ''A connector.'')])
      else Inl (JSONDecodeError ''Expecting value: line 1 column 1 (char 0)''))"

section \<open>PHCQASystem\<close>

text \<open>The state of the retrieval loops: \<open>all_chunks\<close>, \<open>seen_chunk_ids\<close> and
  \<open>question_chunks\<close> (a dict from question to the chunks found for it).\<close>

type_synonym retrieval =
  "chunk list \<times> (string \<times> int) list \<times> (string \<times> chunk list) list"

definition chunk_id :: "chunk \<Rightarrow> string \<times> int" where
  "chunk_id c = (path c, start_line c)"

text \<open>\<open>question_chunks[q].append(chunk)\<close>; every question is a key from the start.\<close>

definition append_for :: "string \<Rightarrow> chunk \<Rightarrow> (string \<times> chunk list) list \<Rightarrow> (string \<times> chunk list) list" where
  "append_for q c question_chunks =
     AList.update q ((case map_of question_chunks q of Some cs \<Rightarrow> cs | None \<Rightarrow> []) @ [c])
       question_chunks"

text \<open>The loop over the chunks found for one question.\<close>

fun merge_for_question :: "string \<Rightarrow> chunk list \<Rightarrow> retrieval \<Rightarrow> retrieval" where
  "merge_for_question question [] st = st"
| "merge_for_question question (c # rest) (all_chunks, seen_chunk_ids, question_chunks) =
     (if chunk_id c \<notin> set seen_chunk_ids then
        merge_for_question question rest
          (all_chunks @ [c], seen_chunk_ids @ [chunk_id c], append_for question c question_chunks)
      else
        merge_for_question question rest
          (all_chunks, seen_chunk_ids, append_for question c question_chunks))"

text \<open>The loop over the chunks found for the combined query: a new chunk is recorded for
  every question.\<close>

fun merge_initial :: "string list \<Rightarrow> chunk list \<Rightarrow> retrieval \<Rightarrow> retrieval" where
  "merge_initial questions [] st = st"
| "merge_initial questions (c # rest) (all_chunks, seen_chunk_ids, question_chunks) =
     (if chunk_id c \<notin> set seen_chunk_ids then
        merge_initial questions rest
          (all_chunks @ [c], seen_chunk_ids @ [chunk_id c],
           fold (\<lambda>q qc. append_for q c qc) questions question_chunks)
      else merge_initial questions rest (all_chunks, seen_chunk_ids, question_chunks))"

text \<open>One search per question; \<open>searcher\<close> is \<open>self.searcher.search\<close>, which may raise.\<close>

fun search_each ::
  "(string \<Rightarrow> int \<Rightarrow> py_error + chunk list) \<Rightarrow> int \<Rightarrow> string list \<Rightarrow> retrieval
     \<Rightarrow> py_error + retrieval" where
  "search_each searcher k [] st = Inr st"
| "search_each searcher k (question # rest) st =
     (case searcher question k of
        Inl e \<Rightarrow> Inl e
      | Inr relevant_chunks \<Rightarrow>
          search_each searcher k rest (merge_for_question question relevant_chunks st))"

definition stop_words :: "string list" where
  "stop_words = [''what'', ''how'', ''when'', ''where'', ''why'', ''does'', ''is'', ''are'',
                 ''the'', ''and'', ''for'', ''with'']"

definition combined_query :: "string list \<Rightarrow> string" where
  "combined_query questions =
     (let combined_keywords =
            concat (map (\<lambda>q. take 5 (filter (\<lambda>w. 3 < length w \<and> w \<notin> set stop_words)
                                         (split_ws (lower q)))) questions)
      in join_with '' '' (take 20 combined_keywords))"

text \<open>The retrieval part of \<open>PHCQASystem.answer_batch\<close>.\<close>

definition retrieve ::
  "(string \<Rightarrow> int \<Rightarrow> py_error + chunk list) \<Rightarrow> string list \<Rightarrow> int \<Rightarrow> py_error + retrieval" where
  "retrieve searcher questions top_k =
     (let start = ([], [], dict_for_keys questions []) in
      if 3 < length questions then
        (case searcher (combined_query questions) (top_k * 2) of
           Inl e \<Rightarrow> Inl e
         | Inr initial_chunks \<Rightarrow>
             search_each searcher (top_k div 2) (take (min 3 (length questions)) questions)
               (merge_initial questions initial_chunks start))
      else search_each searcher top_k questions start)"

text \<open>Truth value of a Python value, and the test \<open>fit_score > 0.0\<close>, which raises on a
  value that is not a number.\<close>

fun truthy :: "pyval \<Rightarrow> bool" where
  "truthy PNone = False"
| "truthy (PBool b) = b"
| "truthy (PNum n) = (n \<noteq> 0)"
| "truthy (PStr s) = (s \<noteq> [])"
| "truthy (PList xs) = (xs \<noteq> [])"
| "truthy (PDict d) = (d \<noteq> [])"

fun greater_zero :: "pyval \<Rightarrow> py_error + bool" where
  "greater_zero (PNum n) = Inr (0 < n)"
| "greater_zero (PBool b) = Inr b"
| "greater_zero v = Inl (TypeError ''> not supported between instances of this type and float'')"

text \<open>\<open>d.get(key, default)\<close>\<close>

definition dict_get :: "(string \<times> pyval) list \<Rightarrow> string \<Rightarrow> pyval \<Rightarrow> pyval" where
  "dict_get d key fallback = (case map_of d key of Some v \<Rightarrow> v | None \<Rightarrow> fallback)"

definition no_information :: string where
  "no_information = ''No relevant information found in the knowledge base.''"

text \<open>The result when no chunk was found.\<close>

definition no_chunks_result :: "string list \<Rightarrow> string \<Rightarrow> bool \<Rightarrow> pyval" where
  "no_chunks_result questions additional_context return_sources =
     (if return_sources then
        (let result = [(''answers'', PDict (dict_for_keys questions (PStr no_information))),
                       (''sources'', PDict (dict_for_keys questions (PList [])))]
         in if strip additional_context \<noteq> [] then
              PDict (AList.update ''fit_explanation''
                       (PStr ''Unable to assess fit - no relevant information found in knowledge base to compare against sponsor requirements.'')
                     (AList.update ''fit_score'' (PNum 0)
                     (AList.update ''tailoring_explanation''
                       (PStr ''Unable to tailor responses - no relevant information found in knowledge base.'')
                      result)))
            else PDict result)
      else PDict (dict_for_keys questions (PStr no_information)))"

text \<open>The sorted, duplicate-free list of source paths of one question.\<close>

definition question_sources :: "(string \<times> chunk list) list \<Rightarrow> string \<Rightarrow> pyval" where
  "question_sources question_chunks question =
     PList (map PStr (sort (remdups (filter (\<lambda>p. p \<noteq> [])
        (map path (case map_of question_chunks question of Some cs \<Rightarrow> cs | None \<Rightarrow> []))))))"

text \<open>The part of \<open>PHCQASystem.answer_batch\<close> after the generation: reading the engine's
  result and attaching the sources.\<close>

definition assemble ::
  "string list \<Rightarrow> (string \<times> chunk list) list \<Rightarrow> bool \<Rightarrow> pyval \<Rightarrow> py_error + pyval" where
  "assemble questions question_chunks return_sources result =
     (let new_format = (case result of PDict d \<Rightarrow> ''answers'' \<in> fst ` set d | _ \<Rightarrow> False);
          fields = (case result of PDict d \<Rightarrow> d | _ \<Rightarrow> []);
          answers = (if new_format then dict_get fields ''answers'' PNone else result);
          tailoring_explanation =
            (if new_format then dict_get fields ''tailoring_explanation'' (PStr []) else PStr []);
          fit_score = (if new_format then dict_get fields ''fit_score'' (PNum 0) else PNum 0);
          fit_explanation =
            (if new_format then dict_get fields ''fit_explanation'' (PStr []) else PStr [])
      in if return_sources \<or> truthy tailoring_explanation then
           (let sources_map =
                  fold (\<lambda>q d. AList.update q (question_sources question_chunks q) d) questions [];
                response0 = [(''answers'', answers), (''sources'', PDict sources_map)];
                response1 = (if truthy tailoring_explanation
                             then AList.update ''tailoring_explanation'' tailoring_explanation response0
                             else response0)
            in and_then (greater_zero fit_score) (\<lambda>positive.
                 let response2 = (if positive then AList.update ''fit_score'' fit_score response1
                                  else response1);
                     response3 = (if truthy fit_explanation
                                  then AList.update ''fit_explanation'' fit_explanation response2
                                  else response2)
                 in Inr (PDict response3)))
         else Inr answers)"

text \<open>
  \<open>PHCQASystem.answer_batch\<close>. The second component of the result lists the prompts handed
  to the generation backend during the call.
\<close>

definition phc_answer_batch ::
  "(string \<Rightarrow> int \<Rightarrow> py_error + chunk list) \<Rightarrow> qa_engine \<Rightarrow> prompt_texts
     \<Rightarrow> (string \<Rightarrow> py_error + string) \<Rightarrow> (string \<Rightarrow> py_error + pyval)
     \<Rightarrow> string list \<Rightarrow> int \<Rightarrow> string \<Rightarrow> bool \<Rightarrow> (py_error + pyval) \<times> string list" where
  "phc_answer_batch searcher eng T generate json_loads questions top_k additional_context
       return_sources =
     (case retrieve searcher questions top_k of
        Inl e \<Rightarrow> (Inl e, [])
      | Inr (all_chunks, seen_chunk_ids, question_chunks) \<Rightarrow>
          if all_chunks = [] then
            (Inr (no_chunks_result questions additional_context return_sources), [])
          else
            (and_then
               (qa_answer_batch eng T generate json_loads questions all_chunks additional_context)
               (assemble questions question_chunks return_sources),
             [final_prompt eng T questions all_chunks additional_context]))"


definition sources_of :: "pyval \<Rightarrow> pyval" where
  "sources_of result = (case result of PDict d \<Rightarrow> dict_get d ''sources'' (PDict []) | _ \<Rightarrow> PDict [])"

text \<open>Searchers for the examples: one that finds nothing, one that finds the quantitative
  chunk; a backend that answers with a JSON object whose key is not the question.\<close>

definition empty_searcher :: "string \<Rightarrow> int \<Rightarrow> py_error + chunk list" where
  "empty_searcher query top_k = Inr []"




section \<open>Question parsing (main.py)\<close>

text \<open>
  The regular expressions of \<open>parse_questions\<close> and \<open>clean_question\<close> are written out as
  list functions. None of them can match the empty text, and in each of them a greedy
  run is followed by a character outside the run's class, so that the first attempt of
  the matcher at a position is its only one. A matcher takes the text from a position
  on and gives the length of the match there. Of the character classes, the ASCII
  members are kept: \<open>\s\<close> is \<open>is_space\<close>, \<open>\d\<close> the ten digits, \<open>\w\<close> letters, digits and
  the underscore; of \<open>[-\<bullet>*...]\<close> and of the dashes the characters \<open>-\<close>, \<open>*\<close> and \<open>:\<close>.
\<close>

definition is_digit :: "char \<Rightarrow> bool" where
  "is_digit c = (c \<in> set ''0123456789'')"

definition is_alpha :: "char \<Rightarrow> bool" where
  "is_alpha c = (is_upper c \<or> is_lower c)"

definition is_word :: "char \<Rightarrow> bool" where
  "is_word c = (is_alpha c \<or> is_digit c \<or> c = CHR ''_'')"

text \<open>\<open>s.rstrip()\<close>\<close>

definition rstrip :: "string \<Rightarrow> string" where
  "rstrip s = rev (dropWhile is_space (rev s))"

text \<open>\<open>re.sub(pattern, repl, s)\<close>: the matches are replaced from left to right, the search
  going on behind each match. The matcher gives the replacement text and the length of
  the match; \<open>n\<close> counts the characters of the last match still to pass over.\<close>

fun re_sub_from :: "(string \<Rightarrow> (string \<times> nat) option) \<Rightarrow> nat \<Rightarrow> string \<Rightarrow> string" where
  "re_sub_from m n [] = []"
| "re_sub_from m n (c # cs) =
     (if 0 < n then re_sub_from m (n - 1) cs
      else (case m (c # cs) of
              Some (repl, k) \<Rightarrow> repl @ re_sub_from m (k - 1) cs
            | None \<Rightarrow> c # re_sub_from m 0 cs))"

definition re_sub :: "(string \<Rightarrow> (string \<times> nat) option) \<Rightarrow> string \<Rightarrow> string" where
  "re_sub m s = re_sub_from m 0 s"

text \<open>\<open>re.split(pattern, s)\<close>; with \<open>capture\<close> the pattern is in a group and the matched
  texts are kept between the pieces.\<close>

fun re_split_from ::
  "bool \<Rightarrow> (string \<Rightarrow> nat option) \<Rightarrow> nat \<Rightarrow> string \<Rightarrow> string \<Rightarrow> string list" where
  "re_split_from capture m n [] piece = [piece]"
| "re_split_from capture m n (c # cs) piece =
     (if 0 < n then re_split_from capture m (n - 1) cs piece
      else (case m (c # cs) of
              Some k \<Rightarrow>
                (if capture then [piece, take k (c # cs)] else [piece])
                  @ re_split_from capture m (k - 1) cs []
            | None \<Rightarrow> re_split_from capture m 0 cs (piece @ [c])))"

definition re_split :: "bool \<Rightarrow> (string \<Rightarrow> nat option) \<Rightarrow> string \<Rightarrow> string list" where
  "re_split capture m s = re_split_from capture m 0 s []"

text \<open>The patterns of the normalisation: \<open>\r\n\<close>, \<open>\r\<close>, \<open>\n{3,}\<close> and \<open>[ \t]+\<close>.\<close>

definition carriage_return :: char where
  "carriage_return = CHR 0x0D"

definition m_crlf :: "string \<Rightarrow> (string \<times> nat) option" where
  "m_crlf s = (if starts_with s [carriage_return, newline] then Some ([newline], 2) else None)"

definition m_cr :: "string \<Rightarrow> (string \<times> nat) option" where
  "m_cr s = (if starts_with s [carriage_return] then Some ([newline], 1) else None)"

definition m_newlines3 :: "string \<Rightarrow> (string \<times> nat) option" where
  "m_newlines3 s =
     (let run = takeWhile (\<lambda>c. c = newline) s
      in if 3 \<le> length run then Some ([newline, newline], length run) else None)"

definition m_blanks :: "string \<Rightarrow> (string \<times> nat) option" where
  "m_blanks s =
     (let run = takeWhile (\<lambda>c. c = CHR '' '' \<or> c = CHR 0x09) s
      in if run \<noteq> [] then Some ('' '', length run) else None)"

definition normalize :: "string \<Rightarrow> string" where
  "normalize raw =
     re_sub m_blanks (re_sub m_newlines3 (re_sub m_cr (re_sub m_crlf (strip raw))))"

text \<open>The patterns of \<open>clean_question\<close>: \<open>\*\*([^*]+)\*\*\<close>, \<open>\*([^*]+)\*\<close> and
  \<open>`([^`]+)`\<close> (a delimiter, a non-empty text free of the delimiter's character, the
  delimiter; replaced by the text), \<open>#{1,6}\s+\<close> and \<open>\s+\<close>.\<close>

definition m_delimited :: "string \<Rightarrow> char \<Rightarrow> string \<Rightarrow> (string \<times> nat) option" where
  "m_delimited d x s =
     (if starts_with s d then
        (let body = takeWhile (\<lambda>c. c \<noteq> x) (drop (length d) s)
         in if body \<noteq> [] \<and> starts_with (drop (length d + length body) s) d
            then Some (body, length d + length body + length d) else None)
      else None)"

definition m_header :: "string \<Rightarrow> (string \<times> nat) option" where
  "m_header s =
     (let hashes = takeWhile (\<lambda>c. c = CHR ''#'') s;
          spaces = takeWhile is_space (drop (length hashes) s)
      in if 1 \<le> length hashes \<and> length hashes \<le> 6 \<and> spaces \<noteq> []
         then Some ([], length hashes + length spaces) else None)"

definition m_spaces :: "string \<Rightarrow> (string \<times> nat) option" where
  "m_spaces s =
     (let run = takeWhile is_space s
      in if run \<noteq> [] then Some ('' '', length run) else None)"

text \<open>\<open>re.sub(r'^[:\-...]\s+', '', text)\<close>\<close>

definition drop_leading_punct :: "string \<Rightarrow> string" where
  "drop_leading_punct s =
     (case s of
        [] \<Rightarrow> []
      | c # cs \<Rightarrow>
          if (c = CHR '':'' \<or> c = CHR ''-'') \<and> takeWhile is_space cs \<noteq> []
          then dropWhile is_space cs else s)"

text \<open>\<open>re.sub(r'\s+[:\-...]$', '', text)\<close>: \<open>$\<close> is the end of the text, or the place
  before a line feed that ends it.\<close>

fun drop_trailing_punct :: "string \<Rightarrow> string" where
  "drop_trailing_punct [] = []"
| "drop_trailing_punct (c # cs) =
     (if is_space c \<and>
         (case dropWhile is_space cs of
            [] \<Rightarrow> False
          | p # rest \<Rightarrow> (p = CHR '':'' \<or> p = CHR ''-'') \<and> (rest = [] \<or> rest = [newline]))
      then tl (dropWhile is_space cs)
      else c # drop_trailing_punct cs)"

text \<open>\<open>clean_question\<close>\<close>

definition clean_question :: "string \<Rightarrow> string" where
  "clean_question text0 =
     (if text0 = [] then []
      else
        (let text1 = re_sub (m_delimited ''**'' (CHR ''*'')) text0;
             text2 = re_sub (m_delimited ''*'' (CHR ''*'')) text1;
             text3 = re_sub (m_delimited ''`'' (CHR ''`'')) text2;
             text4 = re_sub m_header text3;
             text5 = re_sub m_spaces text4;
             text6 = strip text5;
             text7 = drop_leading_punct text6;
             text8 = drop_trailing_punct text7
         in if text8 \<noteq> [] \<and> is_lower (hd text8) then upper_char (hd text8) # tl text8
            else text8))"

text \<open>\<open>is_valid_question\<close>\<close>

definition is_valid_question :: "string \<Rightarrow> bool" where
  "is_valid_question text0 =
     (if text0 = [] \<or> length text0 < 10 then False
      else if length (split_ws text0) < 3 \<and> \<not> ends_with text0 ''?'' then False
      else if length text0 < 10 then False
      else if lower text0 \<in> set [''question'', ''answer'', ''q:'', ''a:'', ''note:'', ''see:'']
        then False
      else if (of_nat (length (filter (\<lambda>c. is_word c \<or> is_space c) text0)) :: rat)
                < of_nat (length text0) * (1 / 2) then False
      else True)"

text \<open>The prefixes removed from a line, each by \<open>re.sub(r'^...\s*', '', line)\<close>. A matcher
  gives the length of the prefix before the white space.\<close>

definition remove_prefix :: "(string \<Rightarrow> nat option) \<Rightarrow> string \<Rightarrow> string" where
  "remove_prefix m line =
     (case m line of Some k \<Rightarrow> dropWhile is_space (drop k line) | None \<Rightarrow> line)"

text \<open>\<open>(Q:|Question:|q:|question:)\<close>, ignoring case\<close>

definition p_label :: "string \<Rightarrow> nat option" where
  "p_label line =
     (if starts_with (lower line) ''q:'' then Some 2
      else if starts_with (lower line) ''question:'' then Some 9
      else None)"

text \<open>A non-empty run of characters of a class, then \<open>.\<close> or \<open>)\<close>: \<open>\d+[\.\)]\<close> and
  \<open>[IVX]+[\.\)]\<close>.\<close>

definition p_run_mark :: "(char \<Rightarrow> bool) \<Rightarrow> string \<Rightarrow> nat option" where
  "p_run_mark cls line =
     (let run = takeWhile cls line
      in if run \<noteq> [] \<and> (starts_with (drop (length run) line) ''.''
                          \<or> starts_with (drop (length run) line) '')'')
         then Some (length run + 1) else None)"

text \<open>\<open>[a-zA-Z][\.\)]\<close>\<close>

definition p_letter :: "string \<Rightarrow> nat option" where
  "p_letter line =
     (case line of
        c # m # rest \<Rightarrow> if is_alpha c \<and> (m = CHR ''.'' \<or> m = CHR '')'') then Some 2 else None
      | _ \<Rightarrow> None)"

text \<open>The bullet characters\<close>

definition p_bullet :: "string \<Rightarrow> nat option" where
  "p_bullet line =
     (case line of
        c # rest \<Rightarrow> if c = CHR ''-'' \<or> c = CHR ''*'' then Some 1 else None
      | [] \<Rightarrow> None)"

text \<open>\<open>\([a-z0-9]+\)\<close>, ignoring case\<close>

definition p_parenthesised :: "string \<Rightarrow> nat option" where
  "p_parenthesised line =
     (case line of
        c # rest \<Rightarrow>
          (let run = takeWhile (\<lambda>c. is_alpha c \<or> is_digit c) rest
           in if c = CHR ''('' \<and> run \<noteq> [] \<and> starts_with (drop (length run) rest) '')''
              then Some (length run + 2) else None)
      | [] \<Rightarrow> None)"

text \<open>\<open>re.sub(r':\s*$', '', line)\<close>\<close>

fun drop_trailing_colon :: "string \<Rightarrow> string" where
  "drop_trailing_colon [] = []"
| "drop_trailing_colon (c # cs) =
     (if c = CHR '':'' \<and> list_all is_space cs then [] else c # drop_trailing_colon cs)"

definition question_starts :: "string list" where
  "question_starts = [''what'', ''who'', ''when'', ''where'', ''why'', ''how'', ''which'', ''can'',
     ''could'', ''would'', ''should'', ''is'', ''are'', ''do'', ''does'', ''did'', ''will'',
     ''has'', ''have'']"

definition is_new_question :: "string \<Rightarrow> bool" where
  "is_new_question line =
     (ends_with line ''?''
      \<or> (line \<noteq> [] \<and> is_upper (hd line) \<and> length (split_ws line) \<le> 15)
      \<or> list_ex (\<lambda>w. starts_with (lower line) w) question_starts)"

text \<open>The state of the search: \<open>questions\<close> and \<open>seen\<close>. The block
  \<open>if question and question not in seen and is_valid_question(question):
  questions.append(question); seen.add(question.lower().strip())\<close> occurs five times;
  in the last of Strategy 3, \<open>seen\<close> is left as it is.\<close>

definition emit :: "string \<Rightarrow> string list \<times> string list \<Rightarrow> string list \<times> string list" where
  "emit question st =
     (case st of (questions, seen) \<Rightarrow>
        if question \<noteq> [] \<and> question \<notin> set seen \<and> is_valid_question question
        then (questions @ [question], seen @ [strip (lower question)])
        else (questions, seen))"

text \<open>\<open>question = ' '.join(current_question).strip(); question = clean_question(question)\<close>
  and the block above.\<close>

definition finish_current ::
  "string list \<Rightarrow> string list \<times> string list \<Rightarrow> string list \<times> string list" where
  "finish_current current st = emit (clean_question (strip (join_with '' '' current))) st"

definition strip_prefixes :: "string \<Rightarrow> string" where
  "strip_prefixes line0 =
     (let line1 = remove_prefix p_label line0;
          line2 = remove_prefix (p_run_mark is_digit) line1;
          line3 = remove_prefix p_letter line2;
          line4 = remove_prefix p_bullet line3;
          line5 = remove_prefix (p_run_mark (\<lambda>c. c \<in> set ''IVX'')) line4;
          line6 = remove_prefix p_parenthesised line5;
          line7 = drop_trailing_colon line6
      in strip line7)"

text \<open>Strategy 1: the loop over the lines; it returns \<open>current_question\<close> and the state.\<close>

fun lines_loop ::
  "string list \<Rightarrow> string list \<Rightarrow> string list \<times> string list
     \<Rightarrow> string list \<times> string list \<times> string list" where
  "lines_loop [] current st = (current, st)"
| "lines_loop (l # rest) current st =
     (if strip l = [] then
        (if current \<noteq> [] then lines_loop rest [] (finish_current current st)
         else lines_loop rest current st)
      else
        (let line = strip_prefixes (strip l)
         in if line = [] then lines_loop rest current st
            else if is_new_question line \<and> current \<noteq> [] then
              lines_loop rest [line] (finish_current current st)
            else lines_loop rest (current @ [line]) st))"

definition strategy1 :: "string \<Rightarrow> string list \<times> string list" where
  "strategy1 normalized =
     (case lines_loop (split_on newline normalized) [] ([], []) of
        (current, st) \<Rightarrow> if current \<noteq> [] then finish_current current st else st)"

text \<open>Strategy 2: the segments between runs of two or more line feeds.\<close>

definition m_newlines2 :: "string \<Rightarrow> nat option" where
  "m_newlines2 s =
     (let run = takeWhile (\<lambda>c. c = newline) s
      in if 2 \<le> length run then Some (length run) else None)"

definition strategy2 :: "string \<Rightarrow> string list \<times> string list \<Rightarrow> string list \<times> string list" where
  "strategy2 normalized st =
     (if length (fst st) \<le> 1 \<and> str_in [newline, newline] normalized then
        fold (\<lambda>segment st. emit (clean_question (strip segment)) st)
          (re_split False m_newlines2 normalized) st
      else st)"

text \<open>Strategy 3: the pieces of \<open>re.split(r'([.!?]+(?:\s+|$))', normalized)\<close>.\<close>

definition m_sentence_end :: "string \<Rightarrow> nat option" where
  "m_sentence_end s =
     (let marks = takeWhile (\<lambda>c. c \<in> set ''.!?'') s;
          spaces = takeWhile is_space (drop (length marks) s)
      in if marks = [] then None
         else if spaces \<noteq> [] then Some (length marks + length spaces)
         else if drop (length marks) s = [] then Some (length marks)
         else None)"

fun sentences_loop ::
  "string list \<Rightarrow> string list \<Rightarrow> string list \<times> string list
     \<Rightarrow> string list \<times> string list \<times> string list" where
  "sentences_loop [] current_q st = (current_q, st)"
| "sentences_loop (s # rest) current_q st =
     (let sentence = strip s
      in if sentence = [] then sentences_loop rest current_q st
         else if ends_with sentence ''?''
                 \<or> (ends_with sentence ''.'' \<and> 2 \<le> length (current_q @ [sentence])) then
           sentences_loop rest [] (finish_current (current_q @ [sentence]) st)
         else sentences_loop rest (current_q @ [sentence]) st)"

definition strategy3 :: "string \<Rightarrow> string list \<times> string list \<Rightarrow> string list \<times> string list" where
  "strategy3 normalized st =
     (if fst st = [] then
        (case sentences_loop (re_split True m_sentence_end normalized) [] st of
           (current_q, st') \<Rightarrow>
             if current_q \<noteq> [] then (fst (finish_current current_q st'), snd st') else st')
      else st)"

text \<open>The final fallback: the whole text as one question.\<close>

definition fallback_question :: "string \<Rightarrow> string list \<Rightarrow> string list" where
  "fallback_question normalized questions =
     (if questions = [] then
        (let cleaned = clean_question normalized
         in if cleaned \<noteq> [] \<and> is_valid_question cleaned then questions @ [cleaned]
            else questions)
      else questions)"

text \<open>The final cleanup of one question.\<close>

definition question_words :: "string list" where
  "question_words = [''what'', ''who'', ''when'', ''where'', ''why'', ''how'', ''which'', ''can'',
     ''could'', ''would'', ''should'', ''is'', ''are'', ''do'', ''does'', ''did'', ''will'',
     ''has'', ''have'']"

definition final_cleanup :: "string \<Rightarrow> string" where
  "final_cleanup q0 =
     (let q = clean_question q0
      in if 20 < length q
            \<and> \<not> (ends_with (rstrip q) ''.'' \<or> ends_with (rstrip q) ''!''
                   \<or> ends_with (rstrip q) ''?'') then
           (if list_ex (\<lambda>word. str_in word (lower q)) question_words then rstrip q @ ''?''
            else rstrip q @ ''.'')
         else q)"

text \<open>\<open>parse_questions\<close>\<close>

definition parse_questions :: "string \<Rightarrow> string list" where
  "parse_questions raw =
     (if raw = [] \<or> strip raw = [] then []
      else
        (let normalized = normalize raw;
             st1 = strategy1 normalized;
             st2 = strategy2 normalized st1;
             st3 = strategy3 normalized st2;
             questions = fallback_question normalized (fst st3)
         in map final_cleanup questions))"

section \<open>Facts about strings\<close>

lemma starts_with_iff: "starts_with s p \<longleftrightarrow> (\<exists>r. s = p @ r)"
  by (induction s p rule: starts_with.induct) auto

lemma str_in_iff: "str_in sub s \<longleftrightarrow> (\<exists>pre suf. s = pre @ sub @ suf)"
proof (induction s)
  case Nil
  then show ?case by auto
next
  case (Cons c cs)
  show ?case
  proof
    assume "str_in sub (c # cs)"
    then consider "starts_with (c # cs) sub" | "str_in sub cs" by auto
    then show "\<exists>pre suf. c # cs = pre @ sub @ suf"
    proof cases
      case 1
      then obtain r where "c # cs = sub @ r" by (auto simp: starts_with_iff)
      then have "c # cs = [] @ sub @ r" by simp
      then show ?thesis by blast
    next
      case 2
      with Cons obtain pre suf where "cs = pre @ sub @ suf" by auto
      then have "c # cs = (c # pre) @ sub @ suf" by simp
      then show ?thesis by blast
    qed
  next
    assume "\<exists>pre suf. c # cs = pre @ sub @ suf"
    then obtain pre suf where e: "c # cs = pre @ sub @ suf" by auto
    show "str_in sub (c # cs)"
    proof (cases pre)
      case Nil
      with e have "starts_with (c # cs) sub" by (auto simp: starts_with_iff)
      then show ?thesis by simp
    next
      case (Cons a pre')
      with e have "cs = pre' @ sub @ suf" by simp
      with Cons.IH have "str_in sub cs" by blast
      then show ?thesis by simp
    qed
  qed
qed

section \<open>Document priority\<close>

text \<open>
  Claim C4. The priority of a document is determined by its lower-cased relative path:
  2.0 when the path contains both \<open>quantitative\<close> and \<open>donations_summary\<close>, 4.0 when it
  contains \<open>quantitative\<close> without \<open>donations_summary\<close>; otherwise 3.0 for
  \<open>qualitative\<close>, else 2.0 for \<open>grant_example\<close>, else 1.0 for \<open>contact\<close>, else 1.5.
  The markers are tested as contiguous substrings of the lower-cased path.
\<close>

theorem folder_priority_tiers:
  fixes p q :: string
  defines "has \<equiv> (\<lambda>m. \<exists>pre suf. lower p = pre @ m @ suf)"
  shows "(lower p = lower q \<longrightarrow> get_folder_priority p = get_folder_priority q)
    \<and> (has ''quantitative'' \<and> has ''donations_summary'' \<longrightarrow> get_folder_priority p = 2)
    \<and> (has ''quantitative'' \<and> \<not> has ''donations_summary'' \<longrightarrow> get_folder_priority p = 4)
    \<and> (\<not> has ''quantitative'' \<and> has ''qualitative'' \<longrightarrow> get_folder_priority p = 3)
    \<and> (\<not> has ''quantitative'' \<and> \<not> has ''qualitative'' \<and> has ''grant_example''
          \<longrightarrow> get_folder_priority p = 2)
    \<and> (\<not> has ''quantitative'' \<and> \<not> has ''qualitative'' \<and> \<not> has ''grant_example''
          \<and> has ''contact'' \<longrightarrow> get_folder_priority p = 1)
    \<and> (\<not> has ''quantitative'' \<and> \<not> has ''qualitative'' \<and> \<not> has ''grant_example''
          \<and> \<not> has ''contact'' \<longrightarrow> get_folder_priority p = 3 / 2)"
  unfolding has_def get_folder_priority_def Let_def str_in_iff [symmetric]
  by simp

theorem folder_priority_tiers_witness:
  "get_folder_priority ''quantitative/phc_donations_summary_2021_2025.md'' = 2
   \<and> get_folder_priority ''Quantitative/phc_impact_2024.md'' = 4"
proof -
  have "str_in ''quantitative'' (lower ''quantitative/phc_donations_summary_2021_2025.md'')"
    by code_simp
  then have a: "\<exists>pre suf. lower ''quantitative/phc_donations_summary_2021_2025.md''
      = pre @ ''quantitative'' @ suf"
    by (rule str_in_iff [THEN iffD1])
  have "str_in ''donations_summary'' (lower ''quantitative/phc_donations_summary_2021_2025.md'')"
    by code_simp
  then have b: "\<exists>pre suf. lower ''quantitative/phc_donations_summary_2021_2025.md''
      = pre @ ''donations_summary'' @ suf"
    by (rule str_in_iff [THEN iffD1])
  have "str_in ''quantitative'' (lower ''Quantitative/phc_impact_2024.md'')"
    by code_simp
  then have c: "\<exists>pre suf. lower ''Quantitative/phc_impact_2024.md'' = pre @ ''quantitative'' @ suf"
    by (rule str_in_iff [THEN iffD1])
  have "\<not> str_in ''donations_summary'' (lower ''Quantitative/phc_impact_2024.md'')"
    by code_simp
  then have d: "\<not> (\<exists>pre suf. lower ''Quantitative/phc_impact_2024.md''
      = pre @ ''donations_summary'' @ suf)"
    by (simp only: str_in_iff [symmetric] not_False_eq_True)
  have 1: "get_folder_priority ''quantitative/phc_donations_summary_2021_2025.md'' = 2"
    by (rule folder_priority_tiers [THEN conjunct2, THEN conjunct1, THEN mp, OF conjI [OF a b]])
  have 2: "get_folder_priority ''Quantitative/phc_impact_2024.md'' = 4"
    by (rule folder_priority_tiers
          [THEN conjunct2, THEN conjunct2, THEN conjunct1, THEN mp, OF conjI [OF c d]])
  from 1 2 show ?thesis ..
qed

section \<open>Chunk lengths\<close>

lemma split_on_ne: "split_on sep s \<noteq> []"
  by (induction s) (auto split: list.splits)

lemma join_with_Cons: "ys \<noteq> [] \<Longrightarrow> join_with sep (x # ys) = x @ sep @ join_with sep ys"
  by (cases ys) auto

lemma join_with_head: "join_with sep ((c # l) # ls) = c # join_with sep (l # ls)"
  by (cases ls) auto

lemma join_split: "join_with [sep] (split_on sep s) = s"
proof (induction s)
  case Nil
  show ?case by simp
next
  case (Cons c s)
  obtain l ls where sp: "split_on sep s = l # ls"
    using split_on_ne [of sep s] by (cases "split_on sep s") auto
  show ?case
  proof (cases "c = sep")
    case True
    then show ?thesis using Cons split_on_ne [of sep s] by (simp add: join_with_Cons)
  next
    case False
    then show ?thesis using Cons sp by (simp add: join_with_head)
  qed
qed

lemma chunk_lines_shape:
  assumes "snd ` set ils \<subseteq> L"
    and "\<forall>c\<in>set chunks. chunk_shape cs ov L (content c)"
    and "cur = [] \<or> chunk_shape cs ov L cur"
    and "chunk_lines doc cs ov ils chunks cur st = (chunks', cur', st')"
  shows "(\<forall>c\<in>set chunks'. chunk_shape cs ov L (content c)) \<and> (cur' = [] \<or> chunk_shape cs ov L cur')"
  using assms
proof (induction ils arbitrary: chunks cur st)
  case Nil
  then show ?case by simp
next
  case (Cons a ils)
  obtain i line where a: "a = (i, line)" by (cases a)
  from Cons.prems(1) a have lL: "line \<in> L" and rest: "snd ` set ils \<subseteq> L" by auto
  show ?case
  proof (cases "int (length cur) + int (length line) > cs \<and> cur \<noteq> []")
    case True
    define ols where "ols = (if ov > 0 then split_on newline (last_chars ov cur) else [])"
    define t where "t = join_with [newline] ols"
    have tl: "int (length t) \<le> max ov 0"
      by (auto simp: t_def ols_def join_split last_chars_def)
    have s1: "chunk_shape cs ov L (t @ [newline] @ line)"
      unfolding chunk_shape_def using lL tl by blast
    from True Cons.prems(3) have s2: "chunk_shape cs ov L cur" by simp
    have step: "chunk_lines doc cs ov ils (chunks @ [mk_chunk doc cur st (int i)])
       (t @ [newline] @ line) (max 0 (int i - int (length ols))) = (chunks', cur', st')"
      using Cons.prems(4) True a by (simp add: ols_def t_def Let_def)
    show ?thesis
      by (rule Cons.IH [OF rest _ _ step]) (use Cons.prems(2) s1 s2 in \<open>auto simp: mk_chunk_def\<close>)
  next
    case False
    define cur2 where "cur2 = (if cur \<noteq> [] then cur @ [newline] @ line else line)"
    have s1: "chunk_shape cs ov L cur2"
      unfolding chunk_shape_def cur2_def using lL False by auto
    have step: "chunk_lines doc cs ov ils chunks cur2 st = (chunks', cur', st')"
      using Cons.prems(4) False a by (auto simp add: cur2_def)
    show ?thesis
      by (rule Cons.IH [OF rest Cons.prems(2) _ step]) (use s1 in simp)
  qed
qed

lemma doc_chunks_shape:
  assumes "c \<in> set (doc_chunks doc cs ov)"
  shows "chunk_shape cs ov (set (split_on newline (doc_content doc))) (content c)"
proof -
  let ?lines = "split_on newline (doc_content doc)"
  obtain chunks cur st where r: "chunk_lines doc cs ov (enumerate 0 ?lines) [] [] 0 = (chunks, cur, st)"
    by (metis prod_cases3)
  have "snd ` set (enumerate 0 ?lines) \<subseteq> set ?lines"
    by (auto simp: in_set_enumerate_eq)
  from chunk_lines_shape [OF this _ _ r]
  have inv: "(\<forall>c\<in>set chunks. chunk_shape cs ov (set ?lines) (content c))"
      "cur = [] \<or> chunk_shape cs ov (set ?lines) cur"
    by auto
  from assms r have "c \<in> set chunks \<or> (strip cur \<noteq> [] \<and> c = mk_chunk doc cur st (int (length ?lines)))"
    by (auto simp: doc_chunks_def Let_def split: if_splits)
  then show ?thesis
  proof
    assume "c \<in> set chunks" with inv show ?thesis by blast
  next
    assume h: "strip cur \<noteq> [] \<and> c = mk_chunk doc cur st (int (length ?lines))"
    then have "cur \<noteq> []" by (auto simp: strip_def)
    with inv h show ?thesis by (auto simp: mk_chunk_def)
  qed
qed


text \<open>
  Claim C5, as the code has it. Every chunk emitted by \<open>get_chunks\<close> has at most
  \<open>chunk_size + 1\<close> characters (the joining newline is not counted by the overflow test),
  unless its content is a single line of its document, or a carried-over tail of at most
  \<open>overlap\<close> characters followed by a newline and one line of its document.
\<close>

theorem get_chunks_shape:
  "\<forall>c\<in>set (get_chunks documents chunk_size overlap).
     int (length (content c)) \<le> chunk_size + 1
     \<or> (\<exists>d\<in>set documents. \<exists>l\<in>set (split_on newline (doc_content d)).
           content c = l
           \<or> (\<exists>t. int (length t) \<le> max overlap 0 \<and> content c = t @ [newline] @ l))"
proof
  fix c assume "c \<in> set (get_chunks documents chunk_size overlap)"
  then obtain d where d: "d \<in> set documents" "c \<in> set (doc_chunks d chunk_size overlap)"
    by (auto simp: get_chunks_def)
  from doc_chunks_shape [OF d(2)] d(1)
  show "int (length (content c)) \<le> chunk_size + 1
     \<or> (\<exists>d\<in>set documents. \<exists>l\<in>set (split_on newline (doc_content d)).
           content c = l
           \<or> (\<exists>t. int (length t) \<le> max overlap 0 \<and> content c = t @ [newline] @ l))"
    unfolding chunk_shape_def by blast
qed

text \<open>The bound at work: with \<open>chunk_size = 10\<close> and \<open>overlap = 4\<close> the second chunk of the
  example is the four carried-over characters, a newline and the nine-character line.\<close>

theorem get_chunks_shape_witness:
  "\<exists>c\<in>set (get_chunks [example_doc_overlap] 10 4).
     content c = ''aaaa'' @ [newline] @ ''bbbbbbbbb'' \<and>
     (int (length (content c)) \<le> 10 + 1
      \<or> (\<exists>d\<in>set [example_doc_overlap]. \<exists>l\<in>set (split_on newline (doc_content d)).
           content c = l
           \<or> (\<exists>t. int (length t) \<le> max 4 0 \<and> content c = t @ [newline] @ l)))"
proof -
  have "\<exists>c\<in>set (get_chunks [example_doc_overlap] 10 4).
          content c = ''aaaa'' @ [newline] @ ''bbbbbbbbb''"
    by code_simp
  then obtain c where c: "c \<in> set (get_chunks [example_doc_overlap] 10 4)"
      "content c = ''aaaa'' @ [newline] @ ''bbbbbbbbb''"
    by blast
  from get_chunks_shape [of "[example_doc_overlap]" 10 4, rule_format, OF c(1)] c
  show ?thesis by blast
qed

text \<open>The claim as stated fails: with \<open>chunk_size = 3\<close> the two lines \<open>a\<close> and \<open>bc\<close> are
  joined into one chunk of four characters; with \<open>chunk_size = 10\<close> and \<open>overlap = 4\<close> a
  chunk of fourteen characters is emitted, made of two lines none of which is longer than
  ten characters.\<close>

theorem get_chunks_length_counterexample:
  "\<not> (\<forall>c\<in>set (get_chunks [example_doc_short] 3 0).
        int (length (content c)) \<le> 3
        \<or> (content c \<in> set (split_on newline (doc_content example_doc_short))
            \<and> 3 < int (length (content c))))
   \<and> \<not> (\<forall>c\<in>set (get_chunks [example_doc_overlap] 10 4).
        int (length (content c)) \<le> 10
        \<or> (content c \<in> set (split_on newline (doc_content example_doc_overlap))
            \<and> 10 < int (length (content c))))"
  by code_simp

section \<open>Index construction\<close>

lemma embed_individually_length:
  "length (embed_individually be cs embeddings) = length embeddings + length cs"
  by (induction cs arbitrary: embeddings) (auto split: option.splits simp: Let_def)

lemma length_concat_batches: "concat (batches n xs) = xs"
  by (induction n xs rule: batches.induct) simp_all

text \<open>When every batch call raises, the fallback gives exactly one entry per chunk.\<close>

lemma fold_fallback_length:
  assumes "\<And>texts. embed_many be texts = None"
  shows "length (fold (embed_batch be) bs embeddings) = length embeddings + length (concat bs)"
  by (induction bs arbitrary: embeddings)
     (simp_all add: embed_batch_def assms embed_individually_length)

lemma compute_embeddings_fallback:
  assumes "\<And>texts. embed_many be texts = None" and "compute_embeddings be None chunks = Inr es"
  shows "length es = length chunks"
  using assms(2) fold_fallback_length [OF assms(1), of "batches 100 chunks" "[]"]
  by (auto simp: compute_embeddings_def Let_def length_concat_batches split: if_splits)

text \<open>
  Claim C9 fails on the code. With two chunks and a batch call that answers
  \<open>{'embedding': [0.1, 0.2, 0.3]}\<close>, the branch "single embedding" appends one vector for the
  whole batch: the index holds one vector for two chunks.
\<close>

theorem compute_embeddings_flat_response:
  "compute_embeddings flat_backend None two_chunks
     = Inr [NpArray (PList [PNum (1/10), PNum (2/10), PNum (3/10)])]
   \<and> length two_chunks = 2"
  by code_simp

section \<open>Search results\<close>

















section \<open>Shrinking keeps the sponsor context\<close>










section \<open>Failures of the generation step are contained\<close>

lemma fold_update_keys:
  "fst ` set (fold (\<lambda>q d. AList.update q v d) keys d0) = set keys \<union> fst ` set d0"
  by (induction keys arbitrary: d0) (auto simp: dom_update)

lemma dict_for_keys_keys: "fst ` set (dict_for_keys keys v) = set keys"
  by (simp add: dict_for_keys_def fold_update_keys)

lemma fold_update_lookup:
  "map_of (fold (\<lambda>q d. AList.update q v d) keys d0) q
     = (if q \<in> set keys then Some v else map_of d0 q)"
  by (induction keys arbitrary: d0) (auto simp: update_conv')

lemma dict_for_keys_lookup:
  "map_of (dict_for_keys keys v) q = (if q \<in> set keys then Some v else None)"
  by (simp add: dict_for_keys_def fold_update_lookup)

















section \<open>The orchestrator\<close>

lemma no_chunks_result_fields:
  "return_sources \<Longrightarrow> \<exists>d. no_chunks_result questions ctx return_sources = PDict d
     \<and> map_of d ''answers'' = Some (PDict (dict_for_keys questions (PStr no_information)))
     \<and> map_of d ''sources'' = Some (PDict (dict_for_keys questions (PList [])))"
  by (simp add: no_chunks_result_def Let_def update_conv')

text \<open>
  Claim C7. When retrieval yields no chunk for the whole batch, \<open>answer_batch\<close> returns at
  once: no prompt is handed to the generation backend, every question is mapped to the
  fixed "no relevant information" answer and, when sources are requested, to an empty
  source list.
\<close>

theorem no_chunks_short_circuit:
  assumes "retrieve searcher questions top_k = Inr ([], seen_chunk_ids, question_chunks)"
  shows "phc_answer_batch searcher eng T generate json_loads questions top_k ctx return_sources
           = (Inr (no_chunks_result questions ctx return_sources), [])
    \<and> (\<not> return_sources \<longrightarrow>
          no_chunks_result questions ctx return_sources
            = PDict (dict_for_keys questions (PStr no_information)))
    \<and> (return_sources \<longrightarrow>
          (\<exists>d. no_chunks_result questions ctx return_sources = PDict d
             \<and> map_of d ''answers'' = Some (PDict (dict_for_keys questions (PStr no_information)))
             \<and> map_of d ''sources'' = Some (PDict (dict_for_keys questions (PList [])))))
    \<and> (\<forall>q\<in>set questions.
          map_of (dict_for_keys questions (PStr no_information)) q = Some (PStr no_information)
          \<and> map_of (dict_for_keys questions (PList [])) q = Some (PList []))
    \<and> fst ` set (dict_for_keys questions (PStr no_information)) = set questions"
proof (intro conjI impI ballI)
  show "phc_answer_batch searcher eng T generate json_loads questions top_k ctx return_sources
           = (Inr (no_chunks_result questions ctx return_sources), [])"
    using assms by (simp add: phc_answer_batch_def)
next
  assume "\<not> return_sources"
  then show "no_chunks_result questions ctx return_sources
            = PDict (dict_for_keys questions (PStr no_information))"
    by (simp add: no_chunks_result_def)
next
  assume "return_sources"
  then show "\<exists>d. no_chunks_result questions ctx return_sources = PDict d
             \<and> map_of d ''answers'' = Some (PDict (dict_for_keys questions (PStr no_information)))
             \<and> map_of d ''sources'' = Some (PDict (dict_for_keys questions (PList [])))"
    by (rule no_chunks_result_fields)
next
  fix q assume "q \<in> set questions"
  then show "map_of (dict_for_keys questions (PStr no_information)) q = Some (PStr no_information)"
    by (simp add: dict_for_keys_lookup)
next
  fix q assume "q \<in> set questions"
  then show "map_of (dict_for_keys questions (PList [])) q = Some (PList [])"
    by (simp add: dict_for_keys_lookup)
next
  show "fst ` set (dict_for_keys questions (PStr no_information)) = set questions"
    by (rule dict_for_keys_keys)
qed

theorem no_chunks_short_circuit_witness:
  "phc_answer_batch empty_searcher example_engine example_texts quota_generate example_loads
       [''What is PHC?'', ''Where is PHC?''] 15 [] True
     = (Inr (no_chunks_result [''What is PHC?'', ''Where is PHC?''] [] True), [])
   \<and> no_chunks_result [''What is PHC?'', ''Where is PHC?''] [] True
     = PDict [(''answers'', PDict [(''What is PHC?'', PStr no_information),
                                   (''Where is PHC?'', PStr no_information)]),
              (''sources'', PDict [(''What is PHC?'', PList []), (''Where is PHC?'', PList [])])]"
proof -
  have r: "retrieve empty_searcher [''What is PHC?'', ''Where is PHC?''] 15
      = Inr ([], [], [(''What is PHC?'', []), (''Where is PHC?'', [])])"
    by code_simp
  have e: "no_chunks_result [''What is PHC?'', ''Where is PHC?''] [] True
     = PDict [(''answers'', PDict [(''What is PHC?'', PStr no_information),
                                   (''Where is PHC?'', PStr no_information)]),
              (''sources'', PDict [(''What is PHC?'', PList []), (''Where is PHC?'', PList [])])]"
    by code_simp
  from no_chunks_short_circuit [OF r, THEN conjunct1] e show ?thesis ..
qed





lemma map_of_update_other: "k \<noteq> k' \<Longrightarrow> map_of (AList.update k v d) k' = map_of d k'"
  by (simp add: update_conv')

lemma response_answers:
  assumes "k1 \<noteq> a" "k2 \<noteq> a" "k3 \<noteq> a" "s \<noteq> a"
  shows "map_of (if c3 then AList.update k3 v3
                   (if c2 then AList.update k2 v2
                      (if c1 then AList.update k1 v1 [(a, x), (s, y)] else [(a, x), (s, y)])
                    else (if c1 then AList.update k1 v1 [(a, x), (s, y)] else [(a, x), (s, y)]))
                 else (if c2 then AList.update k2 v2
                      (if c1 then AList.update k1 v1 [(a, x), (s, y)] else [(a, x), (s, y)])
                    else (if c1 then AList.update k1 v1 [(a, x), (s, y)] else [(a, x), (s, y)]))) a
         = Some x"
  using assms by (simp add: map_of_update_other)







section \<open>Question parsing\<close>

lemma upper_char_not_lower: "is_lower c \<Longrightarrow> \<not> is_lower (upper_char c)"
  by (auto simp: is_lower_def upper_char_def lower_letters_def upper_letters_def)

lemma clean_question_first:
  "clean_question t \<noteq> [] \<Longrightarrow> \<not> is_lower (hd (clean_question t))"
  unfolding clean_question_def Let_def
  by (auto simp: upper_char_not_lower split: if_splits)

lemma rstrip_prefix: "\<exists>suf. s = rstrip s @ suf"
proof -
  have "rev (takeWhile is_space (rev s) @ dropWhile is_space (rev s)) = rev (rev s)"
    by (simp only: takeWhile_dropWhile_id)
  then have "s = rstrip s @ rev (takeWhile is_space (rev s))"
    by (simp only: rev_append rev_rev_ident rstrip_def)
  then show ?thesis ..
qed

lemma rstrip_hd: "rstrip s \<noteq> [] \<Longrightarrow> hd (rstrip s) = hd s"
proof -
  assume ne: "rstrip s \<noteq> []"
  obtain suf where "s = rstrip s @ suf" using rstrip_prefix by blast
  then have "hd s = hd (rstrip s @ suf)" by simp
  with ne show ?thesis by simp
qed

lemma appended_first:
  assumes "q \<noteq> [] \<Longrightarrow> \<not> is_lower (hd q)" and "\<not> is_lower m"
  shows "\<not> is_lower (hd (rstrip q @ [m]))"
proof (cases "rstrip q = []")
  case True
  with assms(2) show ?thesis by simp
next
  case False
  then have "q \<noteq> []" by (auto simp: rstrip_def)
  with assms(1) False show ?thesis by (simp add: rstrip_hd)
qed

lemma final_cleanup_first:
  "final_cleanup q \<noteq> [] \<Longrightarrow> \<not> is_lower (hd (final_cleanup q))"
proof -
  have m: "\<not> is_lower (CHR ''?'')" "\<not> is_lower (CHR ''.'')"
    by (simp_all add: is_lower_def lower_letters_def)
  assume "final_cleanup q \<noteq> []"
  then show ?thesis
    unfolding final_cleanup_def Let_def
    using appended_first [OF clean_question_first m(1), of q]
          appended_first [OF clean_question_first m(2), of q]
          clean_question_first [of q]
    by (simp split: if_splits)
qed

text \<open>No question returned by \<open>parse_questions\<close> starts with a lower-case letter.\<close>

lemma parse_questions_first_char:
  "q \<in> set (parse_questions raw) \<Longrightarrow> q \<noteq> [] \<Longrightarrow> \<not> is_lower (hd q)"
  unfolding parse_questions_def Let_def
  by (auto simp: final_cleanup_first split: if_splits)

text \<open>
  Claim C3 fails on the input of two equal lines \<open>What is your name?\<close>: the test
  \<open>question not in seen\<close> looks up the cleaned text, which starts with a capital letter,
  in a set that holds the lower-cased texts, so the second occurrence is not recognised
  and the question is returned twice.
\<close>

theorem parse_questions_keeps_duplicate:
  "parse_questions (''What is your name?'' @ [newline] @ ''What is your name?'')
     = [''What is your name?'', ''What is your name?'']"
  by code_simp

text \<open>
  Claim C10 fails on the input \<open>: : What is?\<close>: the candidate \<open>: What is?\<close> has ten
  characters and passes \<open>is_valid_question\<close>; the final cleanup applies \<open>clean_question\<close> once
  more, which removes the leading colon, and the question returned has eight characters.
\<close>

theorem parse_questions_short_question:
  "parse_questions '': : What is?'' = [''What is?'']
   \<and> clean_question '': : What is?'' = '': What is?''
   \<and> is_valid_question '': What is?''
   \<and> length ''What is?'' = 8"
  by code_simp

end
